theory Spec2Isabelle
  imports Main "HOL-Library.Word"
begin

section \<open>Common data: references and exceptions\<close>

text \<open>
  Futures live on the C++ heap and are shared through \<^verbatim>\<open>std::shared_ptr\<close>; the model
  names each one by an address and keeps an explicit store. Reference counting and
  destruction are not modelled: a future stays in the store for ever.
\<close>

type_synonym ref = nat

text \<open>
  What a C++ \<^verbatim>\<open>throw\<close> can carry in this code: the two standard exception classes the
  library throws itself, a thrown \<^verbatim>\<open>std::string\<close> (the only thing \<^verbatim>\<open>base_future\<close>
  catches), and any other object. \<open>undefined_behaviour\<close> is not a C++ exception: it
  marks a step that has no defined meaning (a call through a dangling reference,
  \<^verbatim>\<open>std::rethrow_exception\<close> of a null pointer); the model stops there and no handler
  catches it.
\<close>

datatype exn =
    runtime_error string
  | logic_error string
  | string_exn string
  | other_exn nat
  | undefined_behaviour

text \<open>\<^verbatim>\<open>e.what()\<close>, for the objects that \<^verbatim>\<open>catch(const std::exception &e)\<close> accepts.\<close>

fun what :: "exn \<Rightarrow> string option" where
  "what (runtime_error m) = Some m"
| "what (logic_error m) = Some m"
| "what (string_exn m) = None"
| "what (other_exn k) = None"
| "what undefined_behaviour = None"


section \<open>The typed future: \<^verbatim>\<open>cps::future<T>\<close> (future/implementation.h)\<close>

datatype state = st_pending | st_done | st_failed | st_cancelled

text \<open>
  The argument a user callback receives: the value (\<^verbatim>\<open>on_done\<close>), the failure reason
  (\<^verbatim>\<open>on_fail\<close>), nothing (\<^verbatim>\<open>on_cancel\<close>), the future itself (\<^verbatim>\<open>on_ready\<close>), or an
  exception object (a typed failure handler of \<^verbatim>\<open>then\<close>).
\<close>

datatype 'v uarg = a_value 'v | a_reason string | a_unit | a_future ref | a_exn exn

text \<open>
  The callables handed to \<^verbatim>\<open>on_done\<close>, \<^verbatim>\<open>on_fail\<close>, \<^verbatim>\<open>on_cancel\<close> and \<^verbatim>\<open>on_ready\<close>,
  as closures over their captured variables:
  \<^item> \<open>c_user k beh\<close>: a callback of the caller's, numbered \<open>k\<close>; the store logs each
    invocation with its argument, and \<open>beh\<close> says whether it throws;
  \<^item> \<open>c_done f\<close>: \<^verbatim>\<open>[f](inner_type v) { f->done(v); }\<close>;
  \<^item> \<open>c_fail_from f inner\<close>: \<^verbatim>\<open>[f, inner](const std::string &) { f->fail_from(*inner); }\<close>;
  \<^item> \<open>c_cancel f\<close>: \<^verbatim>\<open>[f]() { f->cancel(); }\<close>, also \<^verbatim>\<open>[inner]() { inner->cancel(); }\<close>.
\<close>

datatype 'v code =
    c_user nat "'v uarg \<Rightarrow> exn option"
  | c_done ref
  | c_fail_from ref ref
  | c_cancel ref

text \<open>
  The success callback of \<^verbatim>\<open>then\<close> returns a future or throws. A failure handler is
  either string-taking (it accepts every \<^verbatim>\<open>std::exception\<close> and receives \<^verbatim>\<open>what()\<close>) or
  typed (it accepts the exceptions of its parameter type, here a predicate).
\<close>

datatype 'v ok_fn = ok_fn nat "'v \<Rightarrow> exn + ref"

datatype err_fn =
    err_string nat "string \<Rightarrow> exn + ref"
  | err_typed nat "exn \<Rightarrow> bool" "exn \<Rightarrow> exn + ref"

text \<open>
  An entry of \<^verbatim>\<open>tasks_\<close>, a \<^verbatim>\<open>std::function<void(future<T> &)>\<close>: the wrappers that
  \<^verbatim>\<open>on_ready\<close>, \<^verbatim>\<open>on_done\<close>, \<^verbatim>\<open>on_fail\<close> and \<^verbatim>\<open>on_cancel\<close> build around their
  argument, and the handler \<^verbatim>\<open>[f, ok, items]\<close> that \<^verbatim>\<open>then\<close> registers. \<open>t_cancel\<close> is
  the wrapper of \<^verbatim>\<open>on_cancel(std::function<void()>)\<close> and \<open>t_cancel_f\<close> the one of
  \<^verbatim>\<open>on_cancel(std::function<void(future<T> &)>)\<close>. The template \<^verbatim>\<open>on_fail<E>\<close> is left
  out.
\<close>

datatype 'v task =
    t_ready "'v code"
  | t_done "'v code"
  | t_fail "'v code"
  | t_cancel "'v code"
  | t_cancel_f "'v code"
  | t_then ref "'v ok_fn" "err_fn list"

text \<open>
  The members of \<^verbatim>\<open>future<T>\<close>. The mutex, the weak self pointer and the two time
  stamps are left out: the model is sequential and has no clock.
\<close>

record 'v future =
  f_state :: state
  f_tasks :: "'v task list"
  f_value :: 'v
  f_failure_reason :: string
  f_ex :: "exn option"
  f_label :: string

text \<open>
  The store: the futures by address, the next free address, and the log of the
  invocations of user callbacks (number and argument, oldest first).
\<close>

record 'v heap =
  futs :: "ref \<Rightarrow> 'v future"
  nxt :: ref
  calls :: "(nat \<times> 'v uarg) list"

text \<open>
  The outcome of a call: \<open>None\<close> when the fuel ran out, otherwise the store it left and
  either the exception that escaped (\<open>Inl\<close>) or the returned value (\<open>Inr\<close>). A C++
  exception leaves every earlier write in place, so the store comes with both.
\<close>

type_synonym ('a, 'h) result = "((exn + 'a) \<times> 'h) option"

definition seq_bind ::
  "('a, 'h) result \<Rightarrow> ('a \<Rightarrow> 'h \<Rightarrow> ('b, 'h) result) \<Rightarrow> ('b, 'h) result" where
  "seq_bind m k =
     (case m of
        None \<Rightarrow> None
      | Some (Inl e, h) \<Rightarrow> Some (Inl e, h)
      | Some (Inr a, h) \<Rightarrow> k a h)"

text \<open>
  \<^verbatim>\<open>create_shared(label)\<close>: a pending future at a fresh address. \<open>T0\<close> is the
  value-initialised \<^verbatim>\<open>T()\<close> that \<^verbatim>\<open>value_\<close> starts with.
\<close>

definition new_future :: "'v \<Rightarrow> string \<Rightarrow> 'v future" where
  "new_future T0 label =
     \<lparr>f_state = st_pending, f_tasks = [], f_value = T0, f_failure_reason = [],
      f_ex = None, f_label = label\<rparr>"

definition create_shared :: "'v \<Rightarrow> string \<Rightarrow> 'v heap \<Rightarrow> ref \<times> 'v heap" where
  "create_shared T0 label h =
     (nxt h, h\<lparr>futs := (futs h)(nxt h := new_future T0 label), nxt := Suc (nxt h)\<rparr>)"

text \<open>The store before anything is allocated, with an empty log.\<close>

definition empty_heap :: "'v \<Rightarrow> 'v heap" where
  "empty_heap T0 = \<lparr>futs = (\<lambda>r. new_future T0 []), nxt = 0, calls = []\<rparr>"

definition is_ready :: "'v future \<Rightarrow> bool" where
  "is_ready f = (f_state f \<noteq> st_pending)"

definition is_done :: "'v future \<Rightarrow> bool" where
  "is_done f = (f_state f = st_done)"

definition is_failed :: "'v future \<Rightarrow> bool" where
  "is_failed f = (f_state f = st_failed)"

definition is_cancelled :: "'v future \<Rightarrow> bool" where
  "is_cancelled f = (f_state f = st_cancelled)"

definition is_pending :: "'v future \<Rightarrow> bool" where
  "is_pending f = (f_state f = st_pending)"

fun state_string :: "state \<Rightarrow> string" where
  "state_string st_pending = ''pending''"
| "state_string st_failed = ''failed''"
| "state_string st_cancelled = ''cancelled''"
| "state_string st_done = ''done''"

text \<open>
  \<^verbatim>\<open>describe()\<close> is \<^verbatim>\<open>label_ + " (" + current_state() + "), " + time_string()\<close>; the
  duration that \<^verbatim>\<open>time_string()\<close> appends is real time and is left out.
\<close>

definition describe :: "'v future \<Rightarrow> string" where
  "describe f = f_label f @ '' ('' @ state_string (f_state f) @ ''), ''"

text \<open>\<^verbatim>\<open>T value() const\<close>: the \<^verbatim>\<open>switch\<close> on the state, each \<^verbatim>\<open>throw\<close> an \<open>Inl\<close>.\<close>

definition future_value :: "'v future \<Rightarrow> exn + 'v" where
  "future_value f =
     (case f_state f of
        st_pending \<Rightarrow> Inl (runtime_error ''future is not complete'')
      | st_failed \<Rightarrow>
          (case f_ex f of
             Some e \<Rightarrow> Inl e
           | None \<Rightarrow> Inl (logic_error ''no exception available''))
      | st_cancelled \<Rightarrow> Inl (runtime_error ''future was cancelled'')
      | st_done \<Rightarrow> Inr (f_value f))"

text \<open>
  \<^verbatim>\<open>T value(std::error_code &ec) const\<close>. The header \<^verbatim>\<open>cps/future/error_code.h\<close> is not
  part of the sources read here, so \<^verbatim>\<open>make_error_code\<close> of the three \<^verbatim>\<open>future_errc\<close>
  constants is a constructor, next to the codes a caller may pass in. The result is the
  returned value and the final content of \<^verbatim>\<open>ec\<close>.
\<close>

datatype future_errc = is_pending_errc | is_failed_errc | is_cancelled_errc

datatype error_code = make_error_code future_errc | foreign_code int string

definition value_ec :: "'v \<Rightarrow> 'v future \<Rightarrow> error_code \<Rightarrow> 'v \<times> error_code" where
  "value_ec T0 f ec =
     (case f_state f of
        st_pending \<Rightarrow> (T0, make_error_code is_pending_errc)
      | st_failed \<Rightarrow> (T0, make_error_code is_failed_errc)
      | st_cancelled \<Rightarrow> (T0, make_error_code is_cancelled_errc)
      | st_done \<Rightarrow> (f_value f, ec))"

definition failure_reason :: "'v future \<Rightarrow> exn + string" where
  "failure_reason f =
     (if f_state f \<noteq> st_failed then Inl (runtime_error ''future is not failed'')
      else Inr (f_failure_reason f))"

definition exception_ptr :: "'v future \<Rightarrow> exn + exn option" where
  "exception_ptr f =
     (if f_state f \<noteq> st_failed then Inl (runtime_error ''future is not failed'')
      else Inr (f_ex f))"


subsection \<open>Resolution and dispatch\<close>

text \<open>
  The two \<^verbatim>\<open>catch\<close> blocks that \<^verbatim>\<open>fail\<close>, \<^verbatim>\<open>fail_from\<close> and \<^verbatim>\<open>fail_exception_pointer\<close>
  share: the reason is \<^verbatim>\<open>what()\<close> for a \<^verbatim>\<open>std::exception\<close> and \<^verbatim>\<open>"unknown"\<close> otherwise,
  and \<^verbatim>\<open>ex_\<close> is the exception itself.
\<close>

definition set_failure :: "exn \<Rightarrow> 'v future \<Rightarrow> 'v future" where
  "set_failure e f =
     f\<lparr>f_failure_reason := (case what e of Some m \<Rightarrow> m | None \<Rightarrow> ''unknown''),
       f_ex := Some e\<rparr>"

text \<open>\<^verbatim>\<open>std::rethrow_exception(p)\<close> inside those blocks; a null \<open>p\<close> has no meaning.\<close>

definition rethrow_into :: "exn option \<Rightarrow> 'v future \<Rightarrow> exn + 'v future" where
  "rethrow_into p f =
     (case p of None \<Rightarrow> Inl undefined_behaviour | Some e \<Rightarrow> Inr (set_failure e f))"

text \<open>A user callback runs: the invocation is logged, then it returns or throws.\<close>

definition call_user ::
  "nat \<Rightarrow> ('v uarg \<Rightarrow> exn option) \<Rightarrow> 'v uarg \<Rightarrow> 'v heap \<Rightarrow> (unit, 'v heap) result" where
  "call_user k beh a h =
     (let h' = h\<lparr>calls := calls h @ [(k, a)]\<rparr>
      in case beh a of None \<Rightarrow> Some (Inr (), h') | Some e \<Rightarrow> Some (Inl e, h'))"

text \<open>
  \<^verbatim>\<open>exception_hoisting_callback\<close>: the handler runs when the exception has the shape it
  accepts, and the result is \<^verbatim>\<open>nullptr\<close> (\<open>None\<close>) otherwise.
\<close>

fun call_err :: "err_fn \<Rightarrow> exn \<Rightarrow> 'v heap \<Rightarrow> (exn + ref option) \<times> 'v heap" where
  "call_err (err_string k code) e h =
     (case what e of
        None \<Rightarrow> (Inr None, h)
      | Some msg \<Rightarrow>
          (case code msg of
             Inl x \<Rightarrow> (Inl x, h\<lparr>calls := calls h @ [(k, a_reason msg)]\<rparr>)
           | Inr inner \<Rightarrow> (Inr (Some inner), h\<lparr>calls := calls h @ [(k, a_reason msg)]\<rparr>)))"
| "call_err (err_typed k accepts code) e h =
     (if accepts e then
        (case code e of
           Inl x \<Rightarrow> (Inl x, h\<lparr>calls := calls h @ [(k, a_exn e)]\<rparr>)
         | Inr inner \<Rightarrow> (Inr (Some inner), h\<lparr>calls := calls h @ [(k, a_exn e)]\<rparr>))
      else (Inr None, h))"

text \<open>
  The loop \<^verbatim>\<open>for(auto &it : items)\<close> of the \<^verbatim>\<open>then\<close> handler up to its first match:
  \<open>Inr (Some inner)\<close> for the handler that accepted, \<open>Inr None\<close> when none did.
\<close>

fun first_handler ::
  "err_fn list \<Rightarrow> exn option \<Rightarrow> 'v heap \<Rightarrow> (exn + ref option) \<times> 'v heap" where
  "first_handler [] p h = (Inr None, h)"
| "first_handler (it # items) None h = (Inl undefined_behaviour, h)"
| "first_handler (it # items) (Some e) h =
     (case call_err it e h of
        (Inl x, h') \<Rightarrow> (Inl x, h')
      | (Inr (Some inner), h') \<Rightarrow> (Inr (Some inner), h')
      | (Inr None, h') \<Rightarrow> first_handler items (Some e) h')"

text \<open>
  \<^verbatim>\<open>try { ... } catch(...) { ... }\<close>: the handler gets every C++ exception; a step
  without meaning is not an exception and passes through.
\<close>

definition try_catch ::
  "('a, 'h) result \<Rightarrow> (exn \<Rightarrow> 'h \<Rightarrow> ('a, 'h) result) \<Rightarrow> ('a, 'h) result" where
  "try_catch m handler =
     (case m of
        None \<Rightarrow> None
      | Some (Inr a, h) \<Rightarrow> Some (Inr a, h)
      | Some (Inl e, h) \<Rightarrow>
          (if e = undefined_behaviour then Some (Inl e, h) else handler e h))"

text \<open>
  The exception of \<^verbatim>\<open>apply_state\<close> on a future that is no longer pending:
  \<^verbatim>\<open>std::logic_error("tried to resolve future twice, wanted " + state_string(s) + ":" + describe())\<close>.
  It names the requested state and, through \<^verbatim>\<open>describe()\<close>, the actual one.
\<close>

definition double_resolve :: "state \<Rightarrow> 'v future \<Rightarrow> exn" where
  "double_resolve s f =
     logic_error (''tried to resolve future twice, wanted '' @ state_string s @ '':'' @ describe f)"

text \<open>The rank of a task in the termination order of the functions below.\<close>

fun task_weight :: "'v task \<Rightarrow> nat" where
  "task_weight (t_then f ok items) = 5"
| "task_weight t = 2"

lemma task_weight_le: "task_weight t \<le> 5"
  by (cases t) auto

text \<open>
  The calls that resolve a future can nest without bound (a callback resolves another
  future, whose callbacks run in turn), so the functions below take fuel: each drain of
  a task list takes one unit, and \<open>None\<close> means the fuel did not suffice.
  \<^item> \<open>apply_state\<close>: the guard against a second resolution, the state change and the
    drain of \<^verbatim>\<open>tasks_\<close>, with no \<^verbatim>\<open>try\<close> around the callbacks;
  \<^item> \<open>call_when_ready\<close>: queue the task while pending, run it at once otherwise;
  \<^item> \<open>call_task\<close>: the body of each wrapper and of the \<^verbatim>\<open>then\<close> handler, whose
    \<^verbatim>\<open>catch(...)\<close> turns an exception into \<^verbatim>\<open>f->fail_exception_pointer(ex)\<close>;
  \<^item> \<open>call_code\<close>: the callables themselves; the one \<^verbatim>\<open>then\<close> registers through \<^verbatim>\<open>on_done\<close>
    has a value parameter and is only ever called with a value;
  \<^item> \<open>wire\<close>: the four registrations that tie an inner future to the derived one.
\<close>

function (sequential) apply_state ::
    "nat \<Rightarrow> ('v future \<Rightarrow> exn + 'v future) \<Rightarrow> state \<Rightarrow> ref \<Rightarrow> 'v heap \<Rightarrow> (ref, 'v heap) result"
and run_tasks :: "nat \<Rightarrow> 'v task list \<Rightarrow> ref \<Rightarrow> 'v heap \<Rightarrow> (unit, 'v heap) result"
and call_task :: "nat \<Rightarrow> 'v task \<Rightarrow> ref \<Rightarrow> 'v heap \<Rightarrow> (unit, 'v heap) result"
and call_code :: "nat \<Rightarrow> 'v code \<Rightarrow> 'v uarg \<Rightarrow> 'v heap \<Rightarrow> (unit, 'v heap) result"
and call_when_ready :: "nat \<Rightarrow> 'v task \<Rightarrow> ref \<Rightarrow> 'v heap \<Rightarrow> (ref, 'v heap) result"
and wire :: "nat \<Rightarrow> ref \<Rightarrow> ref \<Rightarrow> 'v heap \<Rightarrow> (unit, 'v heap) result"
where
  "apply_state n code s r h =
     (if f_state (futs h r) \<noteq> st_pending then
        Some (Inl (double_resolve s (futs h r)), h)
      else
        (case code (futs h r) of
           Inl e \<Rightarrow> Some (Inl e, h)
         | Inr fu \<Rightarrow>
             (case n of
                0 \<Rightarrow> None
              | Suc m \<Rightarrow>
                  seq_bind
                    (run_tasks m (f_tasks fu) r
                       (h\<lparr>futs := (futs h)(r := fu\<lparr>f_tasks := [], f_state := s\<rparr>)\<rparr>))
                    (\<lambda>u h'. Some (Inr r, h')))))"
| "run_tasks n [] r h = Some (Inr (), h)"
| "run_tasks n (v # pending) r h =
     seq_bind (call_task n v r h) (\<lambda>u h'. run_tasks n pending r h')"
| "call_task n (t_ready code) me h = call_code n code (a_future me) h"
| "call_task n (t_done code) me h =
     (if is_done (futs h me) then
        (case future_value (futs h me) of
           Inl e \<Rightarrow> Some (Inl e, h)
         | Inr v \<Rightarrow> call_code n code (a_value v) h)
      else Some (Inr (), h))"
| "call_task n (t_fail code) me h =
     (if is_failed (futs h me) then
        (case failure_reason (futs h me) of
           Inl e \<Rightarrow> Some (Inl e, h)
         | Inr msg \<Rightarrow> call_code n code (a_reason msg) h)
      else Some (Inr (), h))"
| "call_task n (t_cancel code) me h =
     (if is_cancelled (futs h me) then call_code n code a_unit h else Some (Inr (), h))"
| "call_task n (t_cancel_f code) me h =
     (if is_cancelled (futs h me) then call_code n code (a_future me) h else Some (Inr (), h))"
| "call_task n (t_then f (ok_fn k ok) items) me h =
     try_catch
       (if is_ready (futs h f) then Some (Inr (), h)
        else if is_done (futs h me) then
          (case future_value (futs h me) of
             Inl e \<Rightarrow> Some (Inl e, h)
           | Inr v \<Rightarrow>
               (case ok v of
                  Inl e \<Rightarrow> Some (Inl e, h\<lparr>calls := calls h @ [(k, a_value v)]\<rparr>)
                | Inr inner \<Rightarrow> wire n f inner (h\<lparr>calls := calls h @ [(k, a_value v)]\<rparr>)))
        else if is_failed (futs h me) then
          (case first_handler items (f_ex (futs h me)) h of
             (Inl e, h') \<Rightarrow> Some (Inl e, h')
           | (Inr (Some inner), h') \<Rightarrow> wire n f inner h'
           | (Inr None, h') \<Rightarrow>
               (if \<not> is_failed (futs h' me) then
                  Some (Inl (logic_error ''future is not failed''), h')
                else
                  seq_bind (apply_state n (rethrow_into (f_ex (futs h' me))) st_failed f h')
                    (\<lambda>p h''. Some (Inr (), h''))))
        else if is_cancelled (futs h me) then
          seq_bind (apply_state n Inr st_cancelled f h) (\<lambda>p h'. Some (Inr (), h'))
        else Some (Inr (), h))
       (\<lambda>ex h'.
          seq_bind (apply_state n (\<lambda>fu. Inr (set_failure ex fu)) st_failed f h')
            (\<lambda>p h''. Some (Inr (), h'')))"
| "call_code n (c_user k beh) a h = call_user k beh a h"
| "call_code n (c_done f) a h =
     (case a of
        a_value v \<Rightarrow>
          seq_bind (apply_state n (\<lambda>fu. Inr (fu\<lparr>f_value := v\<rparr>)) st_done f h)
            (\<lambda>p h'. Some (Inr (), h'))
      | _ \<Rightarrow> Some (Inl undefined_behaviour, h))"
| "call_code n (c_fail_from f inner) a h =
     (if \<not> is_failed (futs h inner) then Some (Inl (logic_error ''future is not failed''), h)
      else
        seq_bind (apply_state n (rethrow_into (f_ex (futs h inner))) st_failed f h)
          (\<lambda>p h'. Some (Inr (), h')))"
| "call_code n (c_cancel f) a h =
     seq_bind (apply_state n Inr st_cancelled f h) (\<lambda>p h'. Some (Inr (), h'))"
| "call_when_ready n code r h =
     (if f_state (futs h r) = st_pending then
        Some (Inr r, h\<lparr>futs := (futs h)(r := (futs h r)\<lparr>f_tasks := f_tasks (futs h r) @ [code]\<rparr>)\<rparr>)
      else seq_bind (call_task n code r h) (\<lambda>u h'. Some (Inr r, h')))"
| "wire n f inner h =
     seq_bind (call_when_ready n (t_done (c_done f)) inner h) (\<lambda>p h1.
     seq_bind (call_when_ready n (t_fail (c_fail_from f inner)) inner h1) (\<lambda>p h2.
     seq_bind (call_when_ready n (t_cancel (c_cancel f)) inner h2) (\<lambda>p h3.
     seq_bind (call_when_ready n (t_cancel (c_cancel inner)) f h3) (\<lambda>p h4.
       Some (Inr (), h4)))))"
  by pat_completeness auto
termination
  by (relation "inv_image (less_than <*lex*> less_than)
       (\<lambda>x. case x of
          Inl (Inl (n, code, s, r, h)) \<Rightarrow> (n, 0)
        | Inl (Inr (Inl (n, ts, r, h))) \<Rightarrow> (n, 7 + length ts)
        | Inl (Inr (Inr (n, t, r, h))) \<Rightarrow> (n, task_weight t)
        | Inr (Inl (n, c, a, h)) \<Rightarrow> (n, 1)
        | Inr (Inr (Inl (n, t, r, h))) \<Rightarrow> (n, Suc (task_weight t))
        | Inr (Inr (Inr (n, f, inner, h))) \<Rightarrow> (n, 4))")
     (auto intro: le_less_trans [OF task_weight_le])

subsection \<open>The public operations\<close>

text \<open>\<^verbatim>\<open>done(T v)\<close>: \<^verbatim>\<open>apply_state([v](future<T>&f) { f.value_ = v; }, state::done)\<close>.\<close>

definition future_done :: "nat \<Rightarrow> ref \<Rightarrow> 'v \<Rightarrow> 'v heap \<Rightarrow> (ref, 'v heap) result" where
  "future_done n r v h = apply_state n (\<lambda>fu. Inr (fu\<lparr>f_value := v\<rparr>)) st_done r h"

text \<open>
  \<^verbatim>\<open>fail(const U ex)\<close> for an exception object, and for a string, which becomes
  \<^verbatim>\<open>std::runtime_error(ex)\<close> first.
\<close>

definition future_fail :: "nat \<Rightarrow> ref \<Rightarrow> exn \<Rightarrow> 'v heap \<Rightarrow> (ref, 'v heap) result" where
  "future_fail n r ex h = apply_state n (\<lambda>fu. Inr (set_failure ex fu)) st_failed r h"

definition future_fail_string :: "nat \<Rightarrow> ref \<Rightarrow> string \<Rightarrow> 'v heap \<Rightarrow> (ref, 'v heap) result" where
  "future_fail_string n r msg h = future_fail n r (runtime_error msg) h"

definition fail_from :: "nat \<Rightarrow> ref \<Rightarrow> ref \<Rightarrow> 'v heap \<Rightarrow> (ref, 'v heap) result" where
  "fail_from n r src h =
     (if \<not> is_failed (futs h src) then Some (Inl (logic_error ''future is not failed''), h)
      else apply_state n (rethrow_into (f_ex (futs h src))) st_failed r h)"

definition fail_exception_pointer :: "nat \<Rightarrow> ref \<Rightarrow> exn \<Rightarrow> 'v heap \<Rightarrow> (ref, 'v heap) result" where
  "fail_exception_pointer n r ex h =
     apply_state n (\<lambda>fu. Inr (set_failure ex fu)) st_failed r h"

definition future_cancel :: "nat \<Rightarrow> ref \<Rightarrow> 'v heap \<Rightarrow> (ref, 'v heap) result" where
  "future_cancel n r h = apply_state n Inr st_cancelled r h"

definition on_ready :: "nat \<Rightarrow> ref \<Rightarrow> 'v code \<Rightarrow> 'v heap \<Rightarrow> (ref, 'v heap) result" where
  "on_ready n r code h = call_when_ready n (t_ready code) r h"

definition on_done :: "nat \<Rightarrow> ref \<Rightarrow> 'v code \<Rightarrow> 'v heap \<Rightarrow> (ref, 'v heap) result" where
  "on_done n r code h = call_when_ready n (t_done code) r h"

definition on_fail :: "nat \<Rightarrow> ref \<Rightarrow> 'v code \<Rightarrow> 'v heap \<Rightarrow> (ref, 'v heap) result" where
  "on_fail n r code h = call_when_ready n (t_fail code) r h"

definition on_cancel :: "nat \<Rightarrow> ref \<Rightarrow> 'v code \<Rightarrow> 'v heap \<Rightarrow> (ref, 'v heap) result" where
  "on_cancel n r code h = call_when_ready n (t_cancel code) r h"

definition on_cancel_f :: "nat \<Rightarrow> ref \<Rightarrow> 'v code \<Rightarrow> 'v heap \<Rightarrow> (ref, 'v heap) result" where
  "on_cancel_f n r code h = call_when_ready n (t_cancel_f code) r h"

text \<open>
  \<^verbatim>\<open>then(ok, err...)\<close>: the derived future \<^verbatim>\<open>f\<close> is created, the handler is registered
  on this future (or run at once when it is already resolved), and \<^verbatim>\<open>f\<close> is returned.
\<close>

definition future_then ::
  "nat \<Rightarrow> 'v \<Rightarrow> ref \<Rightarrow> 'v ok_fn \<Rightarrow> err_fn list \<Rightarrow> 'v heap \<Rightarrow> (ref, 'v heap) result" where
  "future_then n T0 r ok items h =
     (case create_shared T0 ''unlabelled future'' h of
        (f, h1) \<Rightarrow>
          seq_bind (call_when_ready n (t_then f ok items) r h1) (\<lambda>p h2. Some (Inr f, h2)))"


section \<open>The untyped future: \<^verbatim>\<open>cps::base_future\<close> (base_future.h)\<close>

datatype bstate = bs_pending | bs_cancelled | bs_failed | bs_complete

text \<open>
  \<^verbatim>\<open>base_future::exception\<close>. Its constructor takes the exception and the component,
  but initialises \<^verbatim>\<open>ex_()\<close> as a null pointer and \<^verbatim>\<open>reason_(u8"unknown")\<close>, whatever it
  is given; \<open>make_exception\<close> is that constructor.
\<close>

record bexception =
  e_ex :: "exn option"
  e_component :: string
  e_reason :: string

definition make_exception :: "exn \<Rightarrow> string \<Rightarrow> bexception" where
  "make_exception e component = \<lparr>e_ex = None, e_component = component, e_reason = ''unknown''\<rparr>"

text \<open>
  What the caller of \<^verbatim>\<open>repeat\<close> supplies as loop body returns a future; the model lets
  it return a fresh future that is still pending, already complete, already failed or
  already cancelled, or throw.
\<close>

datatype each_beh = ret_pending | ret_complete | ret_failed | ret_cancelled | ret_throw exn

text \<open>
  The closures of base_future.h, by the type of \<^verbatim>\<open>std::function\<close> they are stored in.

  \<^verbatim>\<open>std::function<ptr()>\<close>, the argument of \<^verbatim>\<open>then\<close>:
  \<^item> \<open>sq_recurse f inp fr check each\<close>: \<^verbatim>\<open>[f, in, &recurse]() { auto v = recurse(in); return v; }\<close>
    of \<^verbatim>\<open>repeat\<close>. \<^verbatim>\<open>recurse\<close> is a local variable of one invocation of the \<^verbatim>\<open>code\<close>
    lambda, captured by reference; \<open>fr\<close> names that invocation. \<open>check\<close> and \<open>each\<close> are
    the caller's two functions, given by what their i-th call answers;
  \<^item> \<open>sq_user k res\<close>: a callback of the caller's that returns a future or throws.

  \<^verbatim>\<open>std::function<void(ptr)>\<close>, the argument of \<^verbatim>\<open>on_ready\<close>:
  \<^item> \<open>rc_keep f\<close>: \<^verbatim>\<open>[f](ptr in) { }\<close>;
  \<^item> \<open>rc_code\<close>: \<^verbatim>\<open>[code](ptr) { return create()->done(); }\<close>;
  \<^item> \<open>rc_user k beh\<close>: a callback of the caller's.

  \<^verbatim>\<open>std::function<void()>\<close> and \<^verbatim>\<open>std::function<void(exception &)>\<close>, the entries of
  \<^verbatim>\<open>on_done_\<close>, \<^verbatim>\<open>on_cancel_\<close> and \<^verbatim>\<open>on_fail_\<close>:
  \<^item> \<open>cb_user k beh\<close>: a callback of the caller's;
  \<^item> \<open>cb_ready self code\<close>: \<^verbatim>\<open>[self, code]() { code(self); }\<close> and its twin for failures;
  \<^item> \<open>cb_done f\<close>, \<open>cb_cancel f\<close>, \<open>cb_fail_ex f\<close>: \<^verbatim>\<open>f->done()\<close>, \<^verbatim>\<open>f->cancel()\<close>,
    \<^verbatim>\<open>f->fail(e)\<close> of \<^verbatim>\<open>propagate\<close> and \<^verbatim>\<open>repeat\<close>;
  \<^item> \<open>cb_fail_msg f msg\<close>: \<^verbatim>\<open>[f]() { f->fail("cancelled"); }\<close>;
  \<^item> \<open>cb_needs_ok f count\<close>, \<open>cb_needs_fail p f\<close>, \<open>cb_needs_can p f\<close>: \<^verbatim>\<open>ok\<close>,
    \<^verbatim>\<open>fail_handler\<close> and \<^verbatim>\<open>can\<close> of \<^verbatim>\<open>needs_all\<close>;
  \<^item> \<open>cb_then_done self ok f\<close>, \<open>cb_then_fail self f\<close>, \<open>cb_then_cancel self f\<close>: the three
    handlers of \<^verbatim>\<open>then(seq ok)\<close>.
\<close>

datatype seq =
    sq_recurse ref ref nat "nat \<Rightarrow> bool" "nat \<Rightarrow> each_beh"
  | sq_user nat "exn + ref"

datatype rcode = rc_keep ref | rc_code | rc_user nat "exn option"

datatype cb =
    cb_user nat "exn option"
  | cb_ready ref rcode
  | cb_done ref
  | cb_cancel ref
  | cb_fail_ex ref
  | cb_fail_msg ref string
  | cb_needs_ok ref nat
  | cb_needs_fail "ref list" ref
  | cb_needs_can "ref list" ref
  | cb_then_done ref seq ref
  | cb_then_fail ref ref
  | cb_then_cancel ref ref

text \<open>
  The members of \<^verbatim>\<open>base_future\<close>. \<^verbatim>\<open>then_\<close> and \<^verbatim>\<open>else_\<close> are written only by the
  two-argument \<^verbatim>\<open>then\<close>, which nothing here uses, and are left out with it.
\<close>

record base_future =
  b_state :: bstate
  b_label :: string
  b_on_done :: "cb list"
  b_on_fail :: "cb list"
  b_on_cancel :: "cb list"
  b_ex :: "bexception option"

text \<open>
  The store of the untyped futures: the futures by address; the \<^verbatim>\<open>std::atomic<int>\<close>
  cells that \<^verbatim>\<open>needs_all\<close> allocates; the invocations of \<^verbatim>\<open>repeat\<close>'s \<^verbatim>\<open>code\<close> lambda
  that have not returned yet; how often \<^verbatim>\<open>check\<close> and \<^verbatim>\<open>each\<close> were called and the
  futures \<^verbatim>\<open>each\<close> returned; and the log of the caller's callbacks that ran.
\<close>

record bheap =
  bfuts :: "ref \<Rightarrow> base_future"
  bnxt :: ref
  counters :: "nat \<Rightarrow> 32 word"
  cnxt :: nat
  live_frames :: "nat list"
  next_frame :: nat
  n_check :: nat
  n_each :: nat
  each_log :: "ref list"
  blog :: "nat list"

definition new_base_future :: "string \<Rightarrow> base_future" where
  "new_base_future label =
     \<lparr>b_state = bs_pending, b_label = label, b_on_done = [], b_on_fail = [],
      b_on_cancel = [], b_ex = None\<rparr>"

definition empty_bheap :: bheap where
  "empty_bheap =
     \<lparr>bfuts = (\<lambda>r. new_base_future []), bnxt = 0, counters = (\<lambda>c. 0), cnxt = 0,
      live_frames = [], next_frame = 0, n_check = 0, n_each = 0, each_log = [], blog = []\<rparr>"

text \<open>\<^verbatim>\<open>create()\<close>: a pending future with the default label at a fresh address.\<close>

definition bcreate :: "bheap \<Rightarrow> ref \<times> bheap" where
  "bcreate h =
     (bnxt h,
      h\<lparr>bfuts := (bfuts h)(bnxt h := new_base_future ''unlabelled future''),
        bnxt := Suc (bnxt h)\<rparr>)"

definition b_is_ready :: "base_future \<Rightarrow> bool" where
  "b_is_ready f = (b_state f \<noteq> bs_pending)"

definition b_is_pending :: "base_future \<Rightarrow> bool" where
  "b_is_pending f = (b_state f = bs_pending)"

definition b_is_failed :: "base_future \<Rightarrow> bool" where
  "b_is_failed f = (b_state f = bs_failed)"

definition b_is_done :: "base_future \<Rightarrow> bool" where
  "b_is_done f = (b_state f = bs_complete)"

definition b_is_cancelled :: "base_future \<Rightarrow> bool" where
  "b_is_cancelled f = (b_state f = bs_cancelled)"

text \<open>
  \<^verbatim>\<open>failure()\<close>: throws \<^verbatim>\<open>fail_exception\<close> (a \<^verbatim>\<open>std::runtime_error\<close>) unless failed, and
  returns \<^verbatim>\<open>ex_->reason()\<close> otherwise.
\<close>

definition failure :: "base_future \<Rightarrow> exn + string" where
  "failure f =
     (if \<not> b_is_failed f then Inl (runtime_error ''this base_future is not failed'')
      else (case b_ex f of None \<Rightarrow> Inl undefined_behaviour | Some e \<Rightarrow> Inr (e_reason e)))"

text \<open>
  \<^verbatim>\<open>mark_ready(s)\<close> is the plain assignment \<^verbatim>\<open>state_ = s\<close>: nothing looks at the state
  the future is in.
\<close>

definition mark_ready :: "bstate \<Rightarrow> base_future \<Rightarrow> base_future" where
  "mark_ready s f = f\<lparr>b_state := s\<rparr>"

definition upd_fut :: "ref \<Rightarrow> (base_future \<Rightarrow> base_future) \<Rightarrow> bheap \<Rightarrow> bheap" where
  "upd_fut r g h = h\<lparr>bfuts := (bfuts h)(r := g (bfuts h r))\<rparr>"

text \<open>The three callback vectors, and the state each one waits for.\<close>

datatype queue = q_done | q_fail | q_cancel

fun queue_of :: "queue \<Rightarrow> base_future \<Rightarrow> cb list" where
  "queue_of q_done f = b_on_done f"
| "queue_of q_fail f = b_on_fail f"
| "queue_of q_cancel f = b_on_cancel f"

fun set_queue :: "queue \<Rightarrow> cb list \<Rightarrow> base_future \<Rightarrow> base_future" where
  "set_queue q_done cs f = f\<lparr>b_on_done := cs\<rparr>"
| "set_queue q_fail cs f = f\<lparr>b_on_fail := cs\<rparr>"
| "set_queue q_cancel cs f = f\<lparr>b_on_cancel := cs\<rparr>"

fun queue_state :: "queue \<Rightarrow> bstate" where
  "queue_state q_done = bs_complete"
| "queue_state q_fail = bs_failed"
| "queue_state q_cancel = bs_cancelled"

text \<open>
  The \<^verbatim>\<open>try\<close> block around each callback in \<^verbatim>\<open>done\<close>, \<^verbatim>\<open>fail\<close> and \<^verbatim>\<open>cancel\<close>:
  \<^verbatim>\<open>catch(std::string ex)\<close> reports and goes on, \<^verbatim>\<open>catch(...)\<close> reports and rethrows.
\<close>

definition catch_string :: "(unit, 'h) result \<Rightarrow> (unit, 'h) result" where
  "catch_string m =
     (case m of
        None \<Rightarrow> None
      | Some (Inr u, h) \<Rightarrow> Some (Inr (), h)
      | Some (Inl e, h) \<Rightarrow>
          (case e of string_exn s \<Rightarrow> Some (Inr (), h) | _ \<Rightarrow> Some (Inl e, h)))"

text \<open>
  The caller's \<^verbatim>\<open>each\<close> function is called: it returns a fresh future in the state its
  behaviour says, or throws; the call is counted and the future logged.
\<close>

definition call_each :: "each_beh \<Rightarrow> bheap \<Rightarrow> (exn + ref) \<times> bheap" where
  "call_each beh h =
     (let h1 = h\<lparr>n_each := Suc (n_each h)\<rparr>
      in case beh of
           ret_throw e \<Rightarrow> (Inl e, h1)
         | _ \<Rightarrow>
             (case bcreate h1 of
                (r, h2) \<Rightarrow>
                  (Inr r,
                   (upd_fut r
                      (case beh of
                         ret_complete \<Rightarrow> mark_ready bs_complete
                       | ret_failed \<Rightarrow>
                           (\<lambda>f. mark_ready bs_failed
                                  (f\<lparr>b_ex := Some (make_exception (runtime_error ''failed'') ''unknown'')\<rparr>))
                       | ret_cancelled \<Rightarrow> mark_ready bs_cancelled
                       | _ \<Rightarrow> (\<lambda>f. f))
                      h2)\<lparr>each_log := each_log h2 @ [r]\<rparr>)))"

text \<open>The rank of a callback in the termination order of the functions below.\<close>

fun cb_weight :: "cb \<Rightarrow> nat" where
  "cb_weight (cb_needs_fail p f) = 4 + length p"
| "cb_weight (cb_needs_can p f) = 4 + length p"
| "cb_weight c = 5"

text \<open>
  The operations that call each other through the stored callbacks. Fuel is taken
  where the source enters a callback from a drain loop or from a registration on a
  future that is already resolved; \<open>None\<close> means the fuel did not suffice.
  \<^item> \<open>base_done\<close>, \<open>base_fail\<close> (the private \<^verbatim>\<open>fail()\<close>), \<open>base_cancel\<close>: \<^verbatim>\<open>mark_ready\<close>,
    clear the two other vectors, drain the own one. \<^verbatim>\<open>done\<close> and \<^verbatim>\<open>fail\<close> end with
    \<^verbatim>\<open>return self\<close>. \<^verbatim>\<open>cancel()\<close> is declared to return \<^verbatim>\<open>ptr\<close> as well, but control
    flows off its end without a \<^verbatim>\<open>return\<close>, which has no defined meaning in C++: after
    its drain the model stops with \<open>undefined_behaviour\<close>;
  \<^item> \<open>drain\<close>: \<^verbatim>\<open>while(!on_x_.empty()) { copy; clear; for(auto &it : copy) ... }\<close>;
  \<^item> \<open>run_cbs\<close>: the \<^verbatim>\<open>for\<close> loop, each callback inside its \<^verbatim>\<open>try\<close>; failure callbacks
    receive \<^verbatim>\<open>*ex_\<close>;
  \<^item> \<open>b_on\<close>: \<^verbatim>\<open>on_done\<close>, \<^verbatim>\<open>on_fail\<close> and \<^verbatim>\<open>on_cancel\<close>;
  \<^item> \<open>base_then\<close>: \<^verbatim>\<open>then(seq ok)\<close>; \<open>propagate\<close>; \<open>cancel_all\<close>: the loop
    \<^verbatim>\<open>for(auto &it : *p) if(!it->is_ready()) it->cancel();\<close> of \<^verbatim>\<open>needs_all\<close>;
  \<^item> \<open>recurse\<close>: the lambda of that name in \<^verbatim>\<open>repeat\<close>.
\<close>

function (sequential)
    base_done :: "nat \<Rightarrow> ref \<Rightarrow> bheap \<Rightarrow> (ref, bheap) result"
and base_fail :: "nat \<Rightarrow> ref \<Rightarrow> bheap \<Rightarrow> (ref, bheap) result"
and base_cancel :: "nat \<Rightarrow> ref \<Rightarrow> bheap \<Rightarrow> (unit, bheap) result"
and drain :: "nat \<Rightarrow> queue \<Rightarrow> ref \<Rightarrow> bheap \<Rightarrow> (unit, bheap) result"
and run_cbs :: "nat \<Rightarrow> cb list \<Rightarrow> queue \<Rightarrow> ref \<Rightarrow> bheap \<Rightarrow> (unit, bheap) result"
and call_cb :: "nat \<Rightarrow> cb \<Rightarrow> bexception option \<Rightarrow> bheap \<Rightarrow> (unit, bheap) result"
and b_on :: "nat \<Rightarrow> queue \<Rightarrow> ref \<Rightarrow> cb \<Rightarrow> bheap \<Rightarrow> (ref, bheap) result"
and base_then :: "nat \<Rightarrow> ref \<Rightarrow> seq \<Rightarrow> bheap \<Rightarrow> (ref, bheap) result"
and propagate :: "nat \<Rightarrow> ref \<Rightarrow> ref \<Rightarrow> bheap \<Rightarrow> (ref, bheap) result"
and cancel_all :: "nat \<Rightarrow> ref list \<Rightarrow> bheap \<Rightarrow> (unit, bheap) result"
and recurse ::
    "nat \<Rightarrow> nat \<Rightarrow> (nat \<Rightarrow> bool) \<Rightarrow> (nat \<Rightarrow> each_beh) \<Rightarrow> ref \<Rightarrow> ref \<Rightarrow> bheap \<Rightarrow> (ref, bheap) result"
where
  "base_done n r h =
     seq_bind
       (drain n q_done r
          (upd_fut r (\<lambda>f. (mark_ready bs_complete f)\<lparr>b_on_fail := [], b_on_cancel := []\<rparr>) h))
       (\<lambda>u h'. Some (Inr r, h'))"
| "base_fail n r h =
     seq_bind
       (drain n q_fail r
          (upd_fut r (\<lambda>f. (mark_ready bs_failed f)\<lparr>b_on_done := [], b_on_cancel := []\<rparr>) h))
       (\<lambda>u h'. Some (Inr r, h'))"
| "base_cancel n r h =
     seq_bind
       (drain n q_cancel r
          (upd_fut r (\<lambda>f. (mark_ready bs_cancelled f)\<lparr>b_on_done := [], b_on_fail := []\<rparr>) h))
       (\<lambda>u h'. Some (Inl undefined_behaviour, h'))"
| "drain n q r h =
     (if queue_of q (bfuts h r) = [] then Some (Inr (), h)
      else
        (case n of
           0 \<Rightarrow> None
         | Suc m \<Rightarrow>
             seq_bind (run_cbs m (queue_of q (bfuts h r)) q r (upd_fut r (set_queue q []) h))
               (\<lambda>u h'. drain m q r h')))"
| "run_cbs n [] q r h = Some (Inr (), h)"
| "run_cbs n (it # copy) q r h =
     (if q = q_fail \<and> b_ex (bfuts h r) = None then Some (Inl undefined_behaviour, h)
      else
        seq_bind
          (catch_string (call_cb n it (if q = q_fail then b_ex (bfuts h r) else None) h))
          (\<lambda>u h'. run_cbs n copy q r h'))"
| "call_cb n (cb_user k beh) a h =
     (case beh of
        None \<Rightarrow> Some (Inr (), h\<lparr>blog := blog h @ [k]\<rparr>)
      | Some e \<Rightarrow> Some (Inl e, h\<lparr>blog := blog h @ [k]\<rparr>))"
| "call_cb n (cb_ready self code) a h =
     (case code of
        rc_keep f \<Rightarrow> Some (Inr (), h)
      | rc_code \<Rightarrow>
          (case bcreate h of
             (r, h1) \<Rightarrow> seq_bind (base_done n r h1) (\<lambda>p h'. Some (Inr (), h')))
      | rc_user k beh \<Rightarrow>
          (case beh of
             None \<Rightarrow> Some (Inr (), h\<lparr>blog := blog h @ [k]\<rparr>)
           | Some e \<Rightarrow> Some (Inl e, h\<lparr>blog := blog h @ [k]\<rparr>)))"
| "call_cb n (cb_done f) a h = seq_bind (base_done n f h) (\<lambda>p h'. Some (Inr (), h'))"
| "call_cb n (cb_cancel f) a h = base_cancel n f h"
| "call_cb n (cb_fail_ex f) a h =
     (case a of
        None \<Rightarrow> Some (Inl undefined_behaviour, h)
      | Some e \<Rightarrow>
          seq_bind (base_fail n f (upd_fut f (\<lambda>fu. fu\<lparr>b_ex := Some e\<rparr>) h))
            (\<lambda>p h'. Some (Inr (), h')))"
| "call_cb n (cb_fail_msg f msg) a h =
     seq_bind
       (base_fail n f
          (upd_fut f (\<lambda>fu. fu\<lparr>b_ex := Some (make_exception (runtime_error msg) ''unknown'')\<rparr>) h))
       (\<lambda>p h'. Some (Inr (), h'))"
| "call_cb n (cb_needs_ok f count) a h =
     (if b_is_ready (bfuts h f) then Some (Inr (), h)
      else
        (let h1 = h\<lparr>counters := (counters h)(count := counters h count - 1)\<rparr>
         in if 0 = counters h1 count \<and> \<not> b_is_ready (bfuts h1 f)
            then seq_bind (base_done n f h1) (\<lambda>p h'. Some (Inr (), h'))
            else Some (Inr (), h1)))"
| "call_cb n (cb_needs_fail p f) a h =
     (if b_is_ready (bfuts h f) then Some (Inr (), h)
      else
        seq_bind (cancel_all n p h) (\<lambda>u h1.
          (case a of
             None \<Rightarrow> Some (Inl undefined_behaviour, h1)
           | Some e \<Rightarrow>
               seq_bind (base_fail n f (upd_fut f (\<lambda>fu. fu\<lparr>b_ex := Some e\<rparr>) h1))
                 (\<lambda>p h'. Some (Inr (), h')))))"
| "call_cb n (cb_needs_can p f) a h =
     (if b_is_ready (bfuts h f) then Some (Inr (), h)
      else seq_bind (cancel_all n p h) (\<lambda>u h1. base_cancel n f h1))"
| "call_cb n (cb_then_done self ok f) a h =
     (if b_is_ready (bfuts h f) then Some (Inr (), h)
      else
        (case ok of
           sq_user k res \<Rightarrow>
             (case res of
                Inl e \<Rightarrow> Some (Inl e, h\<lparr>blog := blog h @ [k]\<rparr>)
              | Inr s \<Rightarrow>
                  seq_bind (propagate n s f (h\<lparr>blog := blog h @ [k]\<rparr>))
                    (\<lambda>p h'. Some (Inr (), h')))
         | sq_recurse lf inp fr check each \<Rightarrow>
             (if fr \<notin> set (live_frames h) then Some (Inl undefined_behaviour, h)
              else
                seq_bind (recurse n fr check each lf inp h) (\<lambda>s h1.
                seq_bind (propagate n s f h1) (\<lambda>p h'. Some (Inr (), h'))))))"
| "call_cb n (cb_then_fail self f) a h =
     (if b_is_ready (bfuts h f) then Some (Inr (), h)
      else
        (case a of
           None \<Rightarrow> Some (Inl undefined_behaviour, h)
         | Some e \<Rightarrow>
             seq_bind (base_fail n f (upd_fut f (\<lambda>fu. fu\<lparr>b_ex := Some e\<rparr>) h))
               (\<lambda>p h'. Some (Inr (), h'))))"
| "call_cb n (cb_then_cancel self f) a h =
     (if b_is_ready (bfuts h f) then Some (Inr (), h) else base_cancel n f h)"
| "b_on n q r code h =
     (if \<not> b_is_ready (bfuts h r) then
        Some (Inr r, upd_fut r (\<lambda>f. set_queue q (queue_of q f @ [code]) f) h)
      else if b_state (bfuts h r) = queue_state q then
        (if q = q_fail \<and> b_ex (bfuts h r) = None then Some (Inl undefined_behaviour, h)
         else
           (case n of
              0 \<Rightarrow> None
            | Suc m \<Rightarrow>
                seq_bind (call_cb m code (if q = q_fail then b_ex (bfuts h r) else None) h)
                  (\<lambda>u h'. Some (Inr r, h'))))
      else Some (Inr r, h))"
| "base_then n r ok h =
     (case bcreate h of
        (f, h0) \<Rightarrow>
          seq_bind (b_on n q_done r (cb_then_done r ok f) h0) (\<lambda>p h1.
          seq_bind (b_on n q_fail r (cb_then_fail r f) h1) (\<lambda>p h2.
          seq_bind (b_on n q_cancel r (cb_then_cancel r f) h2) (\<lambda>p h3.
            Some (Inr f, h3)))))"
| "propagate n r f h =
     seq_bind (b_on n q_done r (cb_done f) h) (\<lambda>p h1.
     seq_bind (b_on n q_cancel r (cb_cancel f) h1) (\<lambda>p h2.
     seq_bind (b_on n q_fail r (cb_fail_ex f) h2) (\<lambda>p h3.
       Some (Inr f, h3))))"
| "cancel_all n [] h = Some (Inr (), h)"
| "cancel_all n (it # p) h =
     (if \<not> b_is_ready (bfuts h it) then
        seq_bind (base_cancel n it h) (\<lambda>u h'. cancel_all n p h')
      else cancel_all n p h)"
| "recurse n fr check each f inp h =
     (if b_is_ready (bfuts h f) then Some (Inr f, h)
      else
        (let status = check (n_check h); h1 = h\<lparr>n_check := Suc (n_check h)\<rparr>
         in if status then base_done n f h1
            else
              (case call_each (each (n_each h1)) h1 of
                 (Inl e, h2) \<Rightarrow> Some (Inl e, h2)
               | (Inr inp', h2) \<Rightarrow>
                   seq_bind (base_then n inp' (sq_recurse f inp' fr check each) h2) (\<lambda>t h3.
                   seq_bind (b_on n q_fail t (cb_fail_ex f) h3) (\<lambda>t' h4.
                     b_on n q_cancel t' (cb_fail_msg f ''cancelled'') h4)))))"
  by pat_completeness auto
termination
  by (relation "inv_image (less_than <*lex*> less_than)
       (\<lambda>x. case x of
          Inl (Inl (Inl (n, r, h))) \<Rightarrow> (n, 1)
        | Inl (Inl (Inr (n, r, h))) \<Rightarrow> (n, 1)
        | Inl (Inr (Inl (n, r, h))) \<Rightarrow> (n, 1)
        | Inl (Inr (Inr (Inl (n, q, r, h)))) \<Rightarrow> (n, 0)
        | Inl (Inr (Inr (Inr (n, cs, q, r, h)))) \<Rightarrow> (n, sum_list (map (\<lambda>c. Suc (cb_weight c)) cs))
        | Inr (Inl (Inl (n, c, a, h))) \<Rightarrow> (n, cb_weight c)
        | Inr (Inl (Inr (Inl (n, q, r, c, h)))) \<Rightarrow> (n, 0)
        | Inr (Inl (Inr (Inr (n, r, ok, h)))) \<Rightarrow> (n, 1)
        | Inr (Inr (Inl (n, r, f, h))) \<Rightarrow> (n, 1)
        | Inr (Inr (Inr (Inl (n, p, h)))) \<Rightarrow> (n, 2 + length p)
        | Inr (Inr (Inr (Inr (n, fr, check, each, f, inp, h)))) \<Rightarrow> (n, 2))")
     auto

subsection \<open>The public operations of \<^verbatim>\<open>base_future\<close>\<close>

text \<open>
  The three public overloads of \<^verbatim>\<open>fail\<close>: each stores a new \<^verbatim>\<open>exception\<close> in \<^verbatim>\<open>ex_\<close> and
  calls the private \<^verbatim>\<open>fail()\<close>. A message is wrapped in a \<^verbatim>\<open>fail_exception\<close>, which is a
  \<^verbatim>\<open>std::runtime_error\<close>.
\<close>

definition base_fail_ex :: "nat \<Rightarrow> ref \<Rightarrow> bexception \<Rightarrow> bheap \<Rightarrow> (ref, bheap) result" where
  "base_fail_ex n r ex h = base_fail n r (upd_fut r (\<lambda>f. f\<lparr>b_ex := Some ex\<rparr>) h)"

definition base_fail_ptr :: "nat \<Rightarrow> ref \<Rightarrow> exn \<Rightarrow> string \<Rightarrow> bheap \<Rightarrow> (ref, bheap) result" where
  "base_fail_ptr n r ex component h =
     base_fail n r (upd_fut r (\<lambda>f. f\<lparr>b_ex := Some (make_exception ex component)\<rparr>) h)"

definition base_fail_msg :: "nat \<Rightarrow> ref \<Rightarrow> string \<Rightarrow> string \<Rightarrow> bheap \<Rightarrow> (ref, bheap) result" where
  "base_fail_msg n r ex component h =
     base_fail n r
       (upd_fut r (\<lambda>f. f\<lparr>b_ex := Some (make_exception (runtime_error ex) component)\<rparr>) h)"

definition base_on_done :: "nat \<Rightarrow> ref \<Rightarrow> cb \<Rightarrow> bheap \<Rightarrow> (ref, bheap) result" where
  "base_on_done n r code h = b_on n q_done r code h"

definition base_on_fail :: "nat \<Rightarrow> ref \<Rightarrow> cb \<Rightarrow> bheap \<Rightarrow> (ref, bheap) result" where
  "base_on_fail n r code h = b_on n q_fail r code h"

definition base_on_cancel :: "nat \<Rightarrow> ref \<Rightarrow> cb \<Rightarrow> bheap \<Rightarrow> (ref, bheap) result" where
  "base_on_cancel n r code h = b_on n q_cancel r code h"

text \<open>\<^verbatim>\<open>on_ready(code)\<close>: the handler goes to \<^verbatim>\<open>on_done\<close>, \<^verbatim>\<open>on_cancel\<close> and \<^verbatim>\<open>on_fail\<close>.\<close>

definition base_on_ready :: "nat \<Rightarrow> ref \<Rightarrow> rcode \<Rightarrow> bheap \<Rightarrow> (ref, bheap) result" where
  "base_on_ready n r code h =
     seq_bind (b_on n q_done r (cb_ready r code) h) (\<lambda>p h1.
     seq_bind (b_on n q_cancel r (cb_ready r code) h1) (\<lambda>p h2.
       b_on n q_fail r (cb_ready r code) h2))"

text \<open>
  \<^verbatim>\<open>needs_all(pending)\<close>. The vector is moved into \<^verbatim>\<open>p\<close> first and \<^verbatim>\<open>*count\<close> is set from
  \<^verbatim>\<open>pending.size()\<close> afterwards: the vector a \<^verbatim>\<open>std::vector\<close> was move-constructed from
  is empty, which \<open>moved_from\<close> stands for. The counter is a 32-bit \<^verbatim>\<open>std::atomic<int>\<close>.
  \<open>needs_register\<close> is the final loop over \<^verbatim>\<open>*p\<close>.
\<close>

fun needs_register :: "nat \<Rightarrow> ref list \<Rightarrow> cb \<Rightarrow> cb \<Rightarrow> cb \<Rightarrow> bheap \<Rightarrow> (unit, bheap) result" where
  "needs_register n [] ok fail_handler can h = Some (Inr (), h)"
| "needs_register n (it # p) ok fail_handler can h =
     seq_bind (b_on n q_done it ok h) (\<lambda>r h1.
     seq_bind (b_on n q_fail it fail_handler h1) (\<lambda>r h2.
     seq_bind (b_on n q_cancel it can h2) (\<lambda>r h3.
       needs_register n p ok fail_handler can h3)))"

definition base_needs_all :: "nat \<Rightarrow> ref list \<Rightarrow> bheap \<Rightarrow> (ref, bheap) result" where
  "base_needs_all n pending h =
     (case bcreate h of
        (f, h1) \<Rightarrow>
          (let count = cnxt h1;
               h2 = h1\<lparr>counters := (counters h1)(count := 0), cnxt := Suc count\<rparr>;
               p = pending;
               moved_from = ([] :: ref list);
               h3 = h2\<lparr>counters := (counters h2)(count := of_nat (length moved_from))\<rparr>
           in seq_bind
                (needs_register n p (cb_needs_ok f count) (cb_needs_fail p f) (cb_needs_can p f) h3)
                (\<lambda>u h4. Some (Inr f, h4))))"

text \<open>
  \<^verbatim>\<open>repeat(check, each)\<close>, in the order of its statements.
  \<^item> \<open>repeat_setup\<close>: \<^verbatim>\<open>f = create(); f->on_ready([f](ptr in) { }); next = create();
    next->done();\<close>
  \<^item> Then \<^verbatim>\<open>code\<close> is declared and initialised with a lambda whose capture list
    \<^verbatim>\<open>[f, check, code, each]\<close> copies \<^verbatim>\<open>code\<close> itself: the \<^verbatim>\<open>shared_ptr\<close> is read inside
    its own initialiser, before it is initialised, which has no defined meaning.
    \<open>base_repeat\<close> ends there, on every call.
  \<^item> \<open>repeat_from_code\<close>: the statements behind that point, \<^verbatim>\<open>next = (*code)(next);
    f->on_ready([code](ptr) { return create()->done(); }); return f;\<close>. The call
    \<^verbatim>\<open>(*code)(next)\<close> is one invocation of the \<^verbatim>\<open>code\<close> lambda: its local \<^verbatim>\<open>recurse\<close>
    exists from entry to return, which the list of live invocations records.
  \<^item> \<open>repeat_past_capture\<close>: the setup followed by those statements, that is, what the
    text of \<^verbatim>\<open>repeat\<close> goes on to do where the copy happens to go through.
\<close>

definition repeat_setup :: "nat \<Rightarrow> bheap \<Rightarrow> (ref \<times> ref, bheap) result" where
  "repeat_setup n h =
     (case bcreate h of
        (f, h1) \<Rightarrow>
          seq_bind (base_on_ready n f (rc_keep f) h1) (\<lambda>p h2.
            (case bcreate h2 of
               (next, h3) \<Rightarrow>
                 seq_bind (base_done n next h3) (\<lambda>p h4. Some (Inr (f, next), h4)))))"

definition base_repeat ::
  "nat \<Rightarrow> (nat \<Rightarrow> bool) \<Rightarrow> (nat \<Rightarrow> each_beh) \<Rightarrow> bheap \<Rightarrow> (ref, bheap) result" where
  "base_repeat n check each h =
     seq_bind (repeat_setup n h) (\<lambda>fs h4. Some (Inl undefined_behaviour, h4))"

definition repeat_from_code ::
  "nat \<Rightarrow> (nat \<Rightarrow> bool) \<Rightarrow> (nat \<Rightarrow> each_beh) \<Rightarrow> ref \<Rightarrow> ref \<Rightarrow> bheap \<Rightarrow> (ref, bheap) result" where
  "repeat_from_code n check each f next h4 =
     (let fr = next_frame h4;
          h5 = h4\<lparr>live_frames := fr # live_frames h4, next_frame := Suc fr\<rparr>
      in case recurse n fr check each f next h5 of
           None \<Rightarrow> None
         | Some (res, h6) \<Rightarrow>
             (let h7 = h6\<lparr>live_frames := removeAll fr (live_frames h6)\<rparr>
              in case res of
                   Inl e \<Rightarrow> Some (Inl e, h7)
                 | Inr nx \<Rightarrow>
                     seq_bind (base_on_ready n f rc_code h7) (\<lambda>p h8. Some (Inr f, h8))))"

definition repeat_past_capture ::
  "nat \<Rightarrow> (nat \<Rightarrow> bool) \<Rightarrow> (nat \<Rightarrow> each_beh) \<Rightarrow> bheap \<Rightarrow> (ref, bheap) result" where
  "repeat_past_capture n check each h =
     seq_bind (repeat_setup n h) (\<lambda>fs h4. repeat_from_code n check each (fst fs) (snd fs) h4)"


section \<open>Reading outcomes\<close>

text \<open>
  What a call returned or threw, when it came back at all, and the store it left.
  \<open>heap_after\<close> is only meaningful next to a statement that the call came back.
\<close>

definition returned :: "('a, 'h) result \<Rightarrow> (exn + 'a) option" where
  "returned m = map_option fst m"

definition heap_after :: "('a, 'h) result \<Rightarrow> 'h" where
  "heap_after m = snd (the m)"

text \<open>Whether a failure handler of \<^verbatim>\<open>then\<close> accepts the shape of an exception.\<close>

fun accepts :: "err_fn \<Rightarrow> exn \<Rightarrow> bool" where
  "accepts (err_string k code) e = (what e \<noteq> None)"
| "accepts (err_typed k acc code) e = acc e"

text \<open>
  Callbacks of the caller's registered through \<^verbatim>\<open>on_ready\<close>: on a typed future one that
  returns and one that throws \<open>e\<close>; on an untyped future one that returns (\<open>None\<close>) or
  throws a \<^verbatim>\<open>std::string\<close> (\<open>Some s\<close>).
\<close>

definition quiet_task :: "nat \<Rightarrow> 'v task" where
  "quiet_task k = t_ready (c_user k (\<lambda>a. None))"

definition throwing_task :: "nat \<Rightarrow> exn \<Rightarrow> 'v task" where
  "throwing_task k e = t_ready (c_user k (\<lambda>a. Some e))"

definition string_cb :: "ref \<Rightarrow> nat \<times> string option \<Rightarrow> cb" where
  "string_cb r ks = cb_ready r (rc_user (fst ks) (map_option string_exn (snd ks)))"

section \<open>Stores of the examples\<close>

text \<open>Two fresh typed futures 0 and 1, labelled f1 and f2, and two fresh untyped ones.\<close>

definition two_futures :: "string heap" where
  "two_futures = snd (create_shared [] ''f2'' (snd (create_shared [] ''f1'' (empty_heap []))))"

definition two_base_futures :: bheap where
  "two_base_futures = snd (bcreate (snd (bcreate empty_bheap)))"

text \<open>
  \<open>seq = f1.then(ok)\<close> on the first of the two typed futures, where \<open>ok\<close> returns the
  second: \<open>seq\<close> is future 2. Here \<open>seq\<close> is cancelled from outside before \<open>f1\<close> resolves.
\<close>

definition cancelled_seq :: "string heap" where
  "cancelled_seq =
     heap_after (future_cancel 1 2
       (heap_after (future_then 0 [] 0 (ok_fn 7 (\<lambda>v. Inr 1)) [] two_futures)))"



text \<open>
  Typed future 0 with two, and with three, callbacks registered through \<^verbatim>\<open>on_ready\<close>, one
  of which throws; untyped future 0 with two, the first throwing a \<^verbatim>\<open>std::string\<close>.
\<close>

definition two_callbacks :: "string heap" where
  "two_callbacks =
     heap_after (on_ready 0 0 (c_user 2 (\<lambda>a. None))
       (heap_after (on_ready 0 0 (c_user 1 (\<lambda>a. Some (runtime_error ''callback failed'')))
          two_futures)))"

definition quiet_then_throwing :: "string heap" where
  "quiet_then_throwing =
     heap_after (on_ready 0 0 (c_user 3 (\<lambda>a. None))
       (heap_after (on_ready 0 0 (c_user 2 (\<lambda>a. Some (runtime_error ''callback failed'')))
         (heap_after (on_ready 0 0 (c_user 1 (\<lambda>a. None)) two_futures)))))"

definition two_string_callbacks :: bheap where
  "two_string_callbacks =
     heap_after (base_on_ready 0 0 (rc_user 2 None)
       (heap_after (base_on_ready 0 0 (rc_user 1 (Some (string_exn ''oops'')))
          two_base_futures)))"

text \<open>
  \<^verbatim>\<open>needs_all\<close> over the two untyped futures, which allocates the aggregate 2 and the
  counter 0; and the same after both inputs were done, one after the other.
\<close>

definition needs_two :: bheap where
  "needs_two = heap_after (base_needs_all 0 [0, 1] two_base_futures)"

definition needs_two_done :: bheap where
  "needs_two_done = heap_after (base_done 2 1 (heap_after (base_done 2 0 needs_two)))"

text \<open>
  The statements of \<^verbatim>\<open>repeat(check, body)\<close> run past the capture, where \<^verbatim>\<open>check\<close> answers
  false, then true, and the body returns a pending future: the loop future is 0 and the
  body's future is 2.
\<close>

definition repeat_once :: bheap where
  "repeat_once =
     heap_after (repeat_past_capture 1 (\<lambda>i. 1 \<le> i) (\<lambda>i. ret_pending) empty_bheap)"


section \<open>Reading the value\<close>

text \<open>
  C5. \<^verbatim>\<open>value()\<close> returns the stored value exactly when the state is done. When pending
  it throws the "not complete" runtime error, when cancelled the "was cancelled" runtime
  error, and when failed it rethrows the stored exception; so in a state other than
  done it never returns normally.
\<close>

theorem value_by_state:
  "(f_state f = st_done \<longrightarrow> future_value f = Inr (f_value f)) \<and>
   (f_state f = st_pending \<longrightarrow> future_value f = Inl (runtime_error ''future is not complete'')) \<and>
   (f_state f = st_cancelled \<longrightarrow> future_value f = Inl (runtime_error ''future was cancelled'')) \<and>
   (f_state f = st_failed \<and> f_ex f = Some e \<longrightarrow> future_value f = Inl e) \<and>
   (f_state f \<noteq> st_done \<longrightarrow> isl (future_value f))"
  by (cases "f_state f"; cases "f_ex f"; simp add: future_value_def)

theorem value_by_state_witness:
  "future_value (new_future (0::int) ''f''\<lparr>f_state := st_done, f_value := 123\<rparr>) = Inr 123 \<and>
   future_value (new_future (0::int) ''f'') = Inl (runtime_error ''future is not complete'') \<and>
   future_value (new_future (0::int) ''f''\<lparr>f_state := st_cancelled\<rparr>)
     = Inl (runtime_error ''future was cancelled'') \<and>
   future_value (set_failure (runtime_error ''some reason'') (new_future (0::int) ''f'')
                   \<lparr>f_state := st_failed\<rparr>)
     = Inl (runtime_error ''some reason'')"
  using value_by_state [of "new_future (0::int) ''f''\<lparr>f_state := st_done, f_value := 123\<rparr>"]
    value_by_state [of "new_future (0::int) ''f''"]
    value_by_state [of "new_future (0::int) ''f''\<lparr>f_state := st_cancelled\<rparr>"]
    value_by_state [of "set_failure (runtime_error ''some reason'') (new_future (0::int) ''f'')
                          \<lparr>f_state := st_failed\<rparr>" "runtime_error ''some reason''"]
  by (simp add: new_future_def set_failure_def)

text \<open>
  C10. The non-throwing \<^verbatim>\<open>value(ec)\<close> on a done future returns the stored value and
  hands back \<^verbatim>\<open>ec\<close> as the caller passed it; \<^verbatim>\<open>ec\<close> is assigned only in the pending,
  failed and cancelled branches, each of which returns \<^verbatim>\<open>T()\<close>.
\<close>

theorem value_ec_frame:
  "(f_state f = st_done \<longrightarrow> value_ec T0 f ec = (f_value f, ec)) \<and>
   (f_state f = st_pending \<longrightarrow> value_ec T0 f ec = (T0, make_error_code is_pending_errc)) \<and>
   (f_state f = st_failed \<longrightarrow> value_ec T0 f ec = (T0, make_error_code is_failed_errc)) \<and>
   (f_state f = st_cancelled \<longrightarrow> value_ec T0 f ec = (T0, make_error_code is_cancelled_errc))"
  by (simp add: value_ec_def)

theorem value_ec_frame_witness:
  "value_ec (0::int) (new_future 0 ''f''\<lparr>f_state := st_done, f_value := 123\<rparr>)
       (foreign_code 5 ''generic'')
     = (123, foreign_code 5 ''generic'') \<and>
   value_ec (0::int) (new_future 0 ''f'') (foreign_code 5 ''generic'')
     = (0, make_error_code is_pending_errc) \<and>
   value_ec (0::int) (new_future 0 ''f''\<lparr>f_state := st_failed, f_value := 9\<rparr>)
       (foreign_code 5 ''generic'')
     = (0, make_error_code is_failed_errc) \<and>
   value_ec (0::int) (new_future 0 ''f''\<lparr>f_state := st_cancelled\<rparr>) (foreign_code 5 ''generic'')
     = (0, make_error_code is_cancelled_errc)"
  using value_ec_frame [of "new_future 0 ''f''\<lparr>f_state := st_done, f_value := 123\<rparr>" "0::int"
                           "foreign_code 5 ''generic''"]
    value_ec_frame [of "new_future 0 ''f''" "0::int" "foreign_code 5 ''generic''"]
    value_ec_frame [of "new_future 0 ''f''\<lparr>f_state := st_failed, f_value := 9\<rparr>" "0::int"
                       "foreign_code 5 ''generic''"]
    value_ec_frame [of "new_future 0 ''f''\<lparr>f_state := st_cancelled\<rparr>" "0::int"
                       "foreign_code 5 ''generic''"]
  by (simp add: new_future_def)


section \<open>Resolving twice\<close>

text \<open>
  C1, as the typed future has it. Once \<^verbatim>\<open>future<T>\<close> has left the pending state, every
  further \<^verbatim>\<open>done\<close>, \<^verbatim>\<open>fail\<close> or \<^verbatim>\<open>cancel\<close> throws the "tried to resolve future twice"
  logic error, which names the requested state and describes the actual one, and the
  store is the one before the call: state, value and failure information are untouched.
  This holds for any fuel, since the guard comes before everything else.
\<close>

theorem resolve_twice_rejected:
  assumes "f_state (futs h r) \<noteq> st_pending"
  shows "future_done n r v h = Some (Inl (double_resolve st_done (futs h r)), h) \<and>
         future_fail n r ex h = Some (Inl (double_resolve st_failed (futs h r)), h) \<and>
         future_fail_string n r msg h = Some (Inl (double_resolve st_failed (futs h r)), h) \<and>
         future_cancel n r h = Some (Inl (double_resolve st_cancelled (futs h r)), h)"
  using assms
  by (simp add: future_done_def future_fail_def future_fail_string_def future_cancel_def)

theorem resolve_twice_rejected_witness:
  "f_state (futs (heap_after (future_cancel 1 0 two_futures)) 0) = st_cancelled \<and>
   future_done 1 0 ''late'' (heap_after (future_cancel 1 0 two_futures))
     = Some (Inl (logic_error ''tried to resolve future twice, wanted done:f1 (cancelled), ''),
             heap_after (future_cancel 1 0 two_futures)) \<and>
   future_cancel 1 0 (heap_after (future_cancel 1 0 two_futures))
     = Some (Inl (logic_error ''tried to resolve future twice, wanted cancelled:f1 (cancelled), ''),
             heap_after (future_cancel 1 0 two_futures))"
  using resolve_twice_rejected [of "heap_after (future_cancel 1 0 two_futures)" 0 1 "''late''"]
  by (simp add: two_futures_def create_shared_def empty_heap_def new_future_def
      future_cancel_def heap_after_def seq_bind_def double_resolve_def describe_def)

text \<open>
  C1 fails on the untyped future: \<^verbatim>\<open>mark_ready\<close> assigns the state without looking at
  it. A \<^verbatim>\<open>base_future\<close> that is complete and is then failed returns normally from
  \<^verbatim>\<open>fail\<close> and ends up failed.
\<close>

theorem base_future_resolves_twice:
  "returned (base_done 1 0 two_base_futures) = Some (Inr 0) \<and>
   b_state (bfuts (heap_after (base_done 1 0 two_base_futures)) 0) = bs_complete \<and>
   returned (base_fail_msg 1 0 ''late'' ''unknown'' (heap_after (base_done 1 0 two_base_futures)))
     = Some (Inr 0) \<and>
   b_state (bfuts (heap_after (base_fail_msg 1 0 ''late'' ''unknown''
              (heap_after (base_done 1 0 two_base_futures)))) 0) = bs_failed"
  by (simp add: two_base_futures_def bcreate_def empty_bheap_def new_base_future_def
      base_fail_msg_def upd_fut_def mark_ready_def heap_after_def returned_def seq_bind_def)


section \<open>Failure reasons\<close>

text \<open>
  On the typed future, \<^verbatim>\<open>fail(msg)\<close> with a string stores exactly that string as the
  reason, and \<^verbatim>\<open>failure_reason()\<close> throws on every state other than failed.
\<close>

lemma typed_failure_reason:
  assumes "f_state (futs h f) = st_pending" "f_tasks (futs h f) = []"
  shows "returned (future_fail_string (Suc n) f msg h) = Some (Inr f) \<and>
         failure_reason (futs (heap_after (future_fail_string (Suc n) f msg h)) f) = Inr msg"
  using assms
  by (simp add: future_fail_string_def future_fail_def set_failure_def returned_def
      heap_after_def seq_bind_def failure_reason_def)

lemma typed_failure_reason_not_failed:
  "f_state fu \<noteq> st_failed \<Longrightarrow> failure_reason fu = Inl (runtime_error ''future is not failed'')"
  by (simp add: failure_reason_def)

text \<open>
  C7 on the untyped future. \<^verbatim>\<open>fail("some reason")\<close> builds a \<^verbatim>\<open>base_future::exception\<close>,
  whose constructor drops the message, and \<^verbatim>\<open>failure()\<close> then returns \<^verbatim>\<open>"unknown"\<close>.
\<close>

theorem base_failure_loses_reason:
  "returned (base_fail_msg 1 0 ''some reason'' ''unknown'' two_base_futures) = Some (Inr 0) \<and>
   failure (bfuts (heap_after (base_fail_msg 1 0 ''some reason'' ''unknown'' two_base_futures)) 0)
     = Inr ''unknown''"
  by (simp add: two_base_futures_def bcreate_def empty_bheap_def new_base_future_def
      base_fail_msg_def upd_fut_def mark_ready_def heap_after_def returned_def seq_bind_def
      failure_def b_is_failed_def make_exception_def)

lemma base_failure_not_failed:
  "b_state fu \<noteq> bs_failed \<Longrightarrow> failure fu = Inl (runtime_error ''this base_future is not failed'')"
  by (simp add: failure_def b_is_failed_def)


section \<open>Callbacks that return\<close>

text \<open>Callbacks that return are run one after the other and logged.\<close>

lemma run_tasks_quiet:
  "run_tasks n (map quiet_task ks @ rest) f h =
   run_tasks n rest f (h\<lparr>calls := calls h @ map (\<lambda>k. (k, a_future f)) ks\<rparr>)"
  by (induction ks arbitrary: h) (simp_all add: quiet_task_def seq_bind_def call_user_def)


section \<open>Composition with \<^verbatim>\<open>then\<close>\<close>









text \<open>
  C9, as the \<^verbatim>\<open>then\<close> handler has it. When the derived future \<open>d\<close> has already left the
  pending state by the time its source \<open>f\<close> resolves, the handler returns at its first
  line: \<open>f.done\<close>, \<open>f.fail\<close> and \<open>f.cancel\<close> all return normally, \<open>d\<close> is exactly what it
  was, and no user callback has run.
\<close>

theorem then_guard_noop:
  fixes h :: "'v heap"
  assumes "f_state (futs h f) = st_pending" "f_tasks (futs h f) = [t_then d ok items]"
    and "d \<noteq> f" "f_state (futs h d) \<noteq> st_pending"
  shows "returned (future_done (Suc n) f v h) = Some (Inr f) \<and>
         futs (heap_after (future_done (Suc n) f v h)) d = futs h d \<and>
         calls (heap_after (future_done (Suc n) f v h)) = calls h \<and>
         returned (future_fail (Suc n) f e h) = Some (Inr f) \<and>
         futs (heap_after (future_fail (Suc n) f e h)) d = futs h d \<and>
         calls (heap_after (future_fail (Suc n) f e h)) = calls h \<and>
         returned (future_cancel (Suc n) f h) = Some (Inr f) \<and>
         futs (heap_after (future_cancel (Suc n) f h)) d = futs h d \<and>
         calls (heap_after (future_cancel (Suc n) f h)) = calls h"
proof -
  obtain k ok' where ok: "ok = ok_fn k ok'" by (cases ok)
  show ?thesis
    using assms
    by (simp add: ok heap_after_def returned_def future_done_def future_fail_def future_cancel_def
        seq_bind_def try_catch_def is_ready_def set_failure_def)
qed

text \<open>
  An instance: the derived future 2 was cancelled from outside before its source 0 is
  done; it stays as it was and \<open>ok\<close> is not invoked.
\<close>

theorem then_guard_noop_witness:
  "f_state (futs cancelled_seq 2) = st_cancelled \<and>
   returned (future_done 1 0 ''input'' cancelled_seq) = Some (Inr 0) \<and>
   futs (heap_after (future_done 1 0 ''input'' cancelled_seq)) 2 = futs cancelled_seq 2 \<and>
   calls (heap_after (future_done 1 0 ''input'' cancelled_seq)) = []"
  using then_guard_noop [of cancelled_seq 0 2 "ok_fn 7 (\<lambda>v. Inr 1)" "[]" 0 "''input''"]
  by (simp add: cancelled_seq_def two_futures_def create_shared_def empty_heap_def new_future_def
      future_then_def future_cancel_def heap_after_def seq_bind_def)

text \<open>
  C9 fails for \<^verbatim>\<open>base_future::propagate\<close>: its three callbacks call \<^verbatim>\<open>f->done()\<close>,
  \<^verbatim>\<open>f->cancel()\<close> and \<^verbatim>\<open>f->fail(e)\<close> unguarded, and \<^verbatim>\<open>base_future\<close> accepts a second
  resolution. Future 0 propagates onto future 1; future 1 is completed from outside
  first; when future 0 then fails, \<^verbatim>\<open>fail\<close> returns normally and future 1 is failed.
\<close>

theorem propagate_overwrites_target:
  "returned (propagate 0 0 1 two_base_futures) = Some (Inr 1) \<and>
   returned (base_done 0 1 (heap_after (propagate 0 0 1 two_base_futures))) = Some (Inr 1) \<and>
   b_state (bfuts (heap_after (base_done 0 1 (heap_after (propagate 0 0 1 two_base_futures)))) 1)
     = bs_complete \<and>
   returned (base_fail_msg 2 0 ''broken'' ''unknown''
      (heap_after (base_done 0 1 (heap_after (propagate 0 0 1 two_base_futures))))) = Some (Inr 0) \<and>
   b_state (bfuts (heap_after (base_fail_msg 2 0 ''broken'' ''unknown''
      (heap_after (base_done 0 1 (heap_after (propagate 0 0 1 two_base_futures)))))) 1)
     = bs_failed"
  by (simp add: two_base_futures_def bcreate_def empty_bheap_def new_base_future_def
      base_fail_msg_def upd_fut_def mark_ready_def heap_after_def returned_def seq_bind_def
      catch_string_def b_is_ready_def make_exception_def numeral_2_eq_2)

text \<open>
  The wiring of an inner future is not guarded either: when the derived future was
  resolved from outside after \<open>ok\<close> had returned the inner future, resolving the inner
  future runs into the guard of \<open>apply_state\<close> and the logic error reaches its resolver.
\<close>

lemma inner_resolution_throws:
  "returned (future_done 2 1 ''inner''
     (heap_after (future_done 1 2 ''mine''
        (heap_after (future_done 1 0 ''input''
           (heap_after (future_then 0 [] 0 (ok_fn 7 (\<lambda>v. Inr 1)) [] two_futures)))))))
   = Some (Inl (logic_error ''tried to resolve future twice, wanted done:unlabelled future (done), ''))"
  by (simp add: two_futures_def create_shared_def empty_heap_def new_future_def
      future_then_def future_done_def heap_after_def returned_def seq_bind_def try_catch_def
      is_ready_def is_done_def is_failed_def is_cancelled_def future_value_def
      double_resolve_def describe_def numeral_2_eq_2)


section \<open>Exceptions thrown by callbacks\<close>

lemma typed_drain_aborts:
  fixes h :: "'v heap"
  assumes "f_state (futs h f) = st_pending"
    and "f_tasks (futs h f) = map quiet_task ks @ throwing_task j e # post"
    and "code (futs h f) = Inr fu" "f_tasks fu = f_tasks (futs h f)"
  shows "apply_state (Suc n) code s f h =
     Some (Inl e,
       h\<lparr>futs := (futs h)(f := fu\<lparr>f_tasks := [], f_state := s\<rparr>),
         calls := calls h @ map (\<lambda>k. (k, a_future f)) ks @ [(j, a_future f)]\<rparr>)"
  using assms
  by (simp add: run_tasks_quiet seq_bind_def throwing_task_def call_user_def)

text \<open>
  In \<^verbatim>\<open>base_future\<close>, callbacks that return or throw a \<^verbatim>\<open>std::string\<close> all run; the
  string is caught and the loop goes on.
\<close>

lemma run_cbs_string:
  "(q = q_fail \<longrightarrow> b_ex (bfuts h r) \<noteq> None) \<Longrightarrow>
   run_cbs n (map (string_cb r) cs) q r h = Some (Inr (), h\<lparr>blog := blog h @ map fst cs\<rparr>)"
proof (induction cs arbitrary: h)
  case Nil
  then show ?case by simp
next
  case (Cons c cs)
  obtain k s where c: "c = (k, s)" by (cases c)
  have step: "catch_string (call_cb n (string_cb r (k, s)) a h) = Some (Inr (), h\<lparr>blog := blog h @ [k]\<rparr>)"
    for a
    by (cases s) (simp_all add: string_cb_def catch_string_def)
  have "run_cbs n (map (string_cb r) cs) q r (h\<lparr>blog := blog h @ [k]\<rparr>) =
        Some (Inr (), h\<lparr>blog := blog h @ [k] @ map fst cs\<rparr>)"
    using Cons.IH [of "h\<lparr>blog := blog h @ [k]\<rparr>"] Cons.prems by simp
  then show ?case
    using Cons.prems by (auto simp: step seq_bind_def c)
qed

lemma set_queue_same: "set_queue q (queue_of q fu) fu = fu"
  by (cases q) simp_all

lemma drain_string:
  assumes "queue_of q (bfuts h r) = map (string_cb r) cs"
    and "q = q_fail \<longrightarrow> b_ex (bfuts h r) \<noteq> None"
  shows "drain (Suc n) q r h =
     Some (Inr (), (upd_fut r (set_queue q []) h)\<lparr>blog := blog h @ map fst cs\<rparr>)"
proof (cases cs)
  case Nil
  have "set_queue q [] (bfuts h r) = bfuts h r"
    using set_queue_same [of q "bfuts h r"] assms(1) Nil by simp
  then have "upd_fut r (set_queue q []) h = h"
    by (simp add: upd_fut_def)
  then show ?thesis using assms(1) Nil by simp
next
  case (Cons c cs')
  have ex: "q = q_fail \<longrightarrow> b_ex (bfuts (upd_fut r (set_queue q []) h) r) \<noteq> None"
    using assms(2) by (cases q) (simp_all add: upd_fut_def)
  have empty: "queue_of q (bfuts ((upd_fut r (set_queue q []) h)\<lparr>blog := l\<rparr>) r) = []" for l
    by (cases q) (simp_all add: upd_fut_def)
  have log: "blog (upd_fut r (set_queue q []) h) = blog h"
    by (simp add: upd_fut_def)
  show ?thesis
    using assms(1) Cons run_cbs_string [OF ex, of n cs] empty
    by (simp add: seq_bind_def log del: run_cbs.simps)
qed

text \<open>
  C4 as the code has it. On a typed future whose queue holds callbacks that return,
  then one that throws \<open>e\<close>, then any others, \<^verbatim>\<open>done\<close>, \<^verbatim>\<open>fail\<close> and \<^verbatim>\<open>cancel\<close> store
  the new state and payload, run the callbacks up to the throwing one, and let \<open>e\<close>
  escape to their caller: the callbacks queued behind it are not invoked. On an
  untyped future whose callbacks return or throw a \<^verbatim>\<open>std::string\<close>, \<^verbatim>\<open>done\<close> and
  \<^verbatim>\<open>fail\<close> catch each string, invoke every callback and return normally.
\<close>

theorem callback_exception_policy:
  fixes h :: "'v heap" and hb :: bheap
  assumes "f_state (futs h f) = st_pending"
    and "f_tasks (futs h f) = map quiet_task ks @ throwing_task j e # post"
    and "b_on_done (bfuts hb r) = map (string_cb r) cs"
    and "b_on_fail (bfuts hb r) = map (string_cb r) cs"
  shows
    "returned (future_done (Suc n) f v h) = Some (Inl e) \<and>
     future_value (futs (heap_after (future_done (Suc n) f v h)) f) = Inr v \<and>
     calls (heap_after (future_done (Suc n) f v h))
       = calls h @ map (\<lambda>k. (k, a_future f)) ks @ [(j, a_future f)] \<and>
     returned (future_fail (Suc n) f x h) = Some (Inl e) \<and>
     future_value (futs (heap_after (future_fail (Suc n) f x h)) f) = Inl x \<and>
     calls (heap_after (future_fail (Suc n) f x h))
       = calls h @ map (\<lambda>k. (k, a_future f)) ks @ [(j, a_future f)] \<and>
     returned (future_cancel (Suc n) f h) = Some (Inl e) \<and>
     is_cancelled (futs (heap_after (future_cancel (Suc n) f h)) f) \<and>
     calls (heap_after (future_cancel (Suc n) f h))
       = calls h @ map (\<lambda>k. (k, a_future f)) ks @ [(j, a_future f)] \<and>
     returned (base_done (Suc n) r hb) = Some (Inr r) \<and>
     b_is_done (bfuts (heap_after (base_done (Suc n) r hb)) r) \<and>
     blog (heap_after (base_done (Suc n) r hb)) = blog hb @ map fst cs \<and>
     returned (base_fail_msg (Suc n) r msg component hb) = Some (Inr r) \<and>
     b_is_failed (bfuts (heap_after (base_fail_msg (Suc n) r msg component hb)) r) \<and>
     blog (heap_after (base_fail_msg (Suc n) r msg component hb)) = blog hb @ map fst cs"
proof -
  have t1: "future_done (Suc n) f v h =
       Some (Inl e,
         h\<lparr>futs := (futs h)(f := (futs h f)\<lparr>f_value := v, f_tasks := [], f_state := st_done\<rparr>),
           calls := calls h @ map (\<lambda>k. (k, a_future f)) ks @ [(j, a_future f)]\<rparr>)"
    unfolding future_done_def
    using typed_drain_aborts [OF assms(1,2), of "\<lambda>fu. Inr (fu\<lparr>f_value := v\<rparr>)"
        "(futs h f)\<lparr>f_value := v\<rparr>" n st_done]
    by simp
  have t2: "future_fail (Suc n) f x h =
       Some (Inl e,
         h\<lparr>futs := (futs h)(f := (set_failure x (futs h f))\<lparr>f_tasks := [], f_state := st_failed\<rparr>),
           calls := calls h @ map (\<lambda>k. (k, a_future f)) ks @ [(j, a_future f)]\<rparr>)"
    unfolding future_fail_def
    using typed_drain_aborts [OF assms(1,2), of "\<lambda>fu. Inr (set_failure x fu)"
        "set_failure x (futs h f)" n st_failed]
    by (simp add: set_failure_def)
  have t3: "future_cancel (Suc n) f h =
       Some (Inl e,
         h\<lparr>futs := (futs h)(f := (futs h f)\<lparr>f_tasks := [], f_state := st_cancelled\<rparr>),
           calls := calls h @ map (\<lambda>k. (k, a_future f)) ks @ [(j, a_future f)]\<rparr>)"
    unfolding future_cancel_def
    using typed_drain_aborts [OF assms(1,2), of Inr "futs h f" n st_cancelled]
    by simp
  have b1: "base_done (Suc n) r hb =
       Some (Inr r,
         (upd_fut r (set_queue q_done [])
            (upd_fut r (\<lambda>f. (mark_ready bs_complete f)\<lparr>b_on_fail := [], b_on_cancel := []\<rparr>) hb))
         \<lparr>blog := blog hb @ map fst cs\<rparr>)"
    using assms(3)
    by (simp add: drain_string [where cs = cs] seq_bind_def upd_fut_def mark_ready_def
        del: drain.simps)
  have b2: "base_fail_msg (Suc n) r msg component hb =
       Some (Inr r,
         (upd_fut r (set_queue q_fail [])
            (upd_fut r (\<lambda>f. (mark_ready bs_failed f)\<lparr>b_on_done := [], b_on_cancel := []\<rparr>)
               (upd_fut r (\<lambda>f. f\<lparr>b_ex := Some (make_exception (runtime_error msg) component)\<rparr>) hb)))
         \<lparr>blog := blog hb @ map fst cs\<rparr>)"
    using assms(4)
    by (simp add: base_fail_msg_def drain_string [where cs = cs] seq_bind_def upd_fut_def
        mark_ready_def del: drain.simps)
  show ?thesis
    unfolding t1 t2 t3 b1 b2
    by (simp add: returned_def heap_after_def future_value_def set_failure_def is_cancelled_def
        upd_fut_def mark_ready_def b_is_done_def b_is_failed_def)
qed

text \<open>
  C4 fails on the typed future: of two callbacks queued on a future, the first throwing,
  only the first is invoked when the future is done, and the exception reaches the
  caller of \<^verbatim>\<open>done\<close>.
\<close>

theorem typed_drain_stops_at_exception:
  "f_tasks (futs two_callbacks 0)
     = [t_ready (c_user 1 (\<lambda>a. Some (runtime_error ''callback failed''))),
        t_ready (c_user 2 (\<lambda>a. None))] \<and>
   returned (future_done 1 0 ''v'' two_callbacks) = Some (Inl (runtime_error ''callback failed'')) \<and>
   calls (heap_after (future_done 1 0 ''v'' two_callbacks)) = [(1, a_future 0)]"
  by (simp add: two_callbacks_def two_futures_def create_shared_def empty_heap_def new_future_def
      on_ready_def future_done_def heap_after_def returned_def seq_bind_def call_user_def)

text \<open>
  An instance: on the typed future the callback 3, queued behind the throwing one, is
  not invoked; on the untyped future both callbacks are, although the first threw.
\<close>

theorem callback_exception_policy_witness:
  "returned (future_done 1 0 ''v'' quiet_then_throwing)
     = Some (Inl (runtime_error ''callback failed'')) \<and>
   future_value (futs (heap_after (future_done 1 0 ''v'' quiet_then_throwing)) 0) = Inr ''v'' \<and>
   calls (heap_after (future_done 1 0 ''v'' quiet_then_throwing))
     = [(1, a_future 0), (2, a_future 0)] \<and>
   returned (base_done 1 0 two_string_callbacks) = Some (Inr 0) \<and>
   b_is_done (bfuts (heap_after (base_done 1 0 two_string_callbacks)) 0) \<and>
   blog (heap_after (base_done 1 0 two_string_callbacks)) = [1, 2]"
  using callback_exception_policy [of quiet_then_throwing 0 "[1]" 2
      "runtime_error ''callback failed''" "[t_ready (c_user 3 (\<lambda>a. None))]"
      two_string_callbacks 0 "[(1, Some ''oops''), (2, None)]" 0 "''v''"]
  by (simp add: quiet_then_throwing_def two_string_callbacks_def two_futures_def
      two_base_futures_def create_shared_def empty_heap_def new_future_def bcreate_def
      empty_bheap_def new_base_future_def on_ready_def base_on_ready_def heap_after_def
      returned_def seq_bind_def upd_fut_def b_is_ready_def quiet_task_def throwing_task_def
      string_cb_def future_done_def call_user_def future_value_def catch_string_def
      mark_ready_def b_is_done_def)


section \<open>\<^verbatim>\<open>needs_all\<close>\<close>

text \<open>
  Whatever the inputs, the counter of \<^verbatim>\<open>needs_all\<close> starts at zero, because it is read
  from the vector after the vector was moved from; and with no input at all nothing
  ever resolves the aggregate, which \<^verbatim>\<open>needs_all\<close> returns pending.
\<close>

lemma needs_all_no_inputs:
  "returned (base_needs_all n [] h) = Some (Inr (bnxt h)) \<and>
   b_is_pending (bfuts (heap_after (base_needs_all n [] h)) (bnxt h)) \<and>
   counters (heap_after (base_needs_all n [] h)) (cnxt h) = 0"
  by (simp add: base_needs_all_def Let_def bcreate_def new_base_future_def seq_bind_def returned_def
      heap_after_def b_is_pending_def)

text \<open>
  C3 on \<^verbatim>\<open>base_future::needs_all\<close>. After both inputs are done the aggregate is still
  pending and the counter stands at \<open>-2\<close>: it started from 0 and \<^verbatim>\<open>0 == --*count\<close> never
  held. With no inputs the aggregate is pending as well.
\<close>

theorem needs_all_never_completes:
  "returned (base_needs_all 0 [0, 1] two_base_futures) = Some (Inr 2) \<and>
   returned (base_done 2 0 needs_two) = Some (Inr 0) \<and>
   returned (base_done 2 1 (heap_after (base_done 2 0 needs_two))) = Some (Inr 1) \<and>
   b_is_done (bfuts needs_two_done 0) \<and>
   b_is_done (bfuts needs_two_done 1) \<and>
   b_is_pending (bfuts needs_two_done 2) \<and>
   counters needs_two_done 0 = (- 2) \<and>
   returned (base_needs_all 0 [] empty_bheap) = Some (Inr 0) \<and>
   b_is_pending (bfuts (heap_after (base_needs_all 0 [] empty_bheap)) 0)"
  by (simp add: needs_two_done_def needs_two_def base_needs_all_def Let_def two_base_futures_def
      bcreate_def empty_bheap_def
      new_base_future_def upd_fut_def mark_ready_def heap_after_def returned_def seq_bind_def
      catch_string_def b_is_ready_def b_is_done_def b_is_pending_def
      numeral_2_eq_2)

text \<open>
  The other paths of \<^verbatim>\<open>needs_all\<close>, at the same inputs. When input 0 is cancelled, the
  handler \<^verbatim>\<open>can\<close> cancels input 1 and then the aggregate, which ends cancelled, not
  failed; the first \<^verbatim>\<open>cancel()\<close> that comes to its end has no \<^verbatim>\<open>return\<close>. When input 0
  fails while input 1 is pending, \<^verbatim>\<open>fail_handler\<close> cancels input 1, whose \<^verbatim>\<open>can\<close> cancels
  the aggregate, with the same end.
  When input 0 fails after input 1 was done, the aggregate is failed.
\<close>

lemma needs_all_cancelled_input:
  "returned (base_cancel 3 0 needs_two) = Some (Inl undefined_behaviour) \<and>
   b_is_cancelled (bfuts (heap_after (base_cancel 3 0 needs_two)) 1) \<and>
   b_is_cancelled (bfuts (heap_after (base_cancel 3 0 needs_two)) 2)"
  by (simp add: needs_two_def base_needs_all_def Let_def two_base_futures_def bcreate_def
      empty_bheap_def new_base_future_def upd_fut_def mark_ready_def heap_after_def returned_def
      seq_bind_def catch_string_def b_is_ready_def b_is_cancelled_def numeral_3_eq_3)

lemma needs_all_failed_input:
  "returned (base_fail_msg 3 0 ''broken'' ''unknown'' needs_two) = Some (Inl undefined_behaviour) \<and>
   b_is_cancelled (bfuts (heap_after (base_fail_msg 3 0 ''broken'' ''unknown'' needs_two)) 1) \<and>
   b_is_cancelled (bfuts (heap_after (base_fail_msg 3 0 ''broken'' ''unknown'' needs_two)) 2) \<and>
   returned (base_fail_msg 3 0 ''broken'' ''unknown'' (heap_after (base_done 1 1 needs_two)))
     = Some (Inr 0) \<and>
   b_is_failed (bfuts (heap_after (base_fail_msg 3 0 ''broken'' ''unknown''
      (heap_after (base_done 1 1 needs_two)))) 2)"
  by (simp add: needs_two_def base_needs_all_def Let_def base_fail_msg_def two_base_futures_def
      bcreate_def empty_bheap_def new_base_future_def upd_fut_def mark_ready_def heap_after_def
      returned_def seq_bind_def catch_string_def b_is_ready_def b_is_failed_def b_is_cancelled_def
      b_is_pending_def make_exception_def numeral_3_eq_3)


section \<open>\<^verbatim>\<open>repeat\<close>\<close>

text \<open>
  C6 at a body that returns a pending future. \<^verbatim>\<open>repeat\<close> itself has no defined meaning
  from the point where its lambda copies the uninitialised \<^verbatim>\<open>code\<close>. Where that copy
  goes through, the statements behind it return the loop future pending, and the
  invocation of \<^verbatim>\<open>code\<close> that owned \<^verbatim>\<open>recurse\<close> is over. The continuation queued on
  future 2 still refers to that \<^verbatim>\<open>recurse\<close>, so completing future 2 calls through a
  dangling reference: the second \<^verbatim>\<open>check\<close> never happens in any defined way and the loop
  future is not completed.
\<close>

theorem repeat_pending_body_dangles:
  "returned (base_repeat 1 (\<lambda>i. 1 \<le> i) (\<lambda>i. ret_pending) empty_bheap)
     = Some (Inl undefined_behaviour) \<and>
   returned (repeat_past_capture 1 (\<lambda>i. 1 \<le> i) (\<lambda>i. ret_pending) empty_bheap) = Some (Inr 0) \<and>
   b_is_pending (bfuts repeat_once 0) \<and>
   each_log repeat_once = [2] \<and>
   b_is_pending (bfuts repeat_once 2) \<and>
   live_frames repeat_once = [] \<and>
   returned (base_done 1 2 repeat_once) = Some (Inl undefined_behaviour) \<and>
   n_check (heap_after (base_done 1 2 repeat_once)) = 1 \<and>
   b_is_pending (bfuts (heap_after (base_done 1 2 repeat_once)) 0)"
  by (simp add: repeat_once_def base_repeat_def repeat_past_capture_def repeat_setup_def
      repeat_from_code_def base_on_ready_def call_each_def bcreate_def empty_bheap_def
      new_base_future_def upd_fut_def mark_ready_def heap_after_def returned_def seq_bind_def
      catch_string_def b_is_ready_def b_is_pending_def Let_def)

end
